theory Spec2Isabelle
  imports Main
begin

section \<open>The data the view reads\<close>

text \<open>
  The embedded program is the React component \<open>ConnectorsView\<close> of
  \<open>airbyte-webapp/src/pages/SettingsPage/pages/ConnectorsPage/components/ConnectorsView.tsx\<close>.
  The component is a pure function of its props and of what its hooks return; it is
  modelled as a function from both to the element tree it returns.
\<close>

text \<open>
  Modelled from the spec: the type \<open>ConnectorDefinition\<close> is declared in
  \<open>core/domain/connector\<close> and \<open>core/request/AirbyteClient\<close>, which are not part of the
  source at hand. The record holds the attributes that section 3 of the specification
  lists and that the component reads. The attributes that a definition may lack
  (\<open>undefined\<close> in the source) are options; \<open>releaseStage\<close> is compared with the
  string literal \<open>"custom"\<close> in the source and is kept as a string.
\<close>

record ConnectorDefinition =
  name :: string
  icon :: "string option"
  dockerRepository :: string
  dockerImageTag :: string
  latestDockerImageTag :: "string option"
  releaseStage :: "string option"
  documentationUrl :: "string option"

text \<open>The two members of \<open>FeatureItem\<close> that the component asks for.\<close>

datatype FeatureItem = AllowUpdateConnectors | AllowUploadCustomImage

text \<open>
  What the component obtains from outside: the hooks \<open>useFeature\<close>,
  \<open>useCurrentWorkspace\<close> and \<open>useAvailableConnectorDefinitions\<close>, and the static
  helpers \<open>Connector.id\<close> and \<open>Connector.hasNewerVersion\<close>. None of them is defined in
  the source at hand, so each is a parameter; \<open>'w\<close> is the type of a workspace.
\<close>

record 'w Hooks =
  useFeature :: "FeatureItem \<Rightarrow> bool"
  useCurrentWorkspace :: 'w
  useAvailableConnectorDefinitions ::
    "ConnectorDefinition list \<Rightarrow> 'w \<Rightarrow> ConnectorDefinition list"
  Connector_id :: "ConnectorDefinition \<Rightarrow> string"
  Connector_hasNewerVersion :: "ConnectorDefinition \<Rightarrow> bool"

datatype ConnectorType = sources | destinations

datatype Error = Error string

text \<open>
  \<open>ConnectorsViewProps\<close>. The optional props \<open>hasNewConnectorVersion\<close> and \<open>error\<close>
  are options; the callbacks \<open>onUpdate\<close> and \<open>onUpdateVersion\<close> are only handed on, so
  their types \<open>'u\<close> and \<open>'v\<close> are left open. The prop \<open>type\<close> is named \<open>type_prop\<close>.
\<close>

record ('u, 'v) ConnectorsViewProps =
  type_prop :: ConnectorType
  isUpdateSuccess :: bool
  hasNewConnectorVersion :: "bool option"
  usedConnectorsDefinitions :: "ConnectorDefinition list"
  connectorsDefinitions :: "ConnectorDefinition list"
  loading :: bool
  error :: "Error option"
  onUpdate :: 'u
  onUpdateVersion :: 'v
  feedbackList :: "string \<rightharpoonup> string"

section \<open>Elements\<close>

text \<open>
  What react-table hands to a column's \<open>Cell\<close> function: \<open>cell.value\<close> and
  \<open>row.original\<close>.
\<close>

record CellProps =
  cell_value :: "string option"
  row_original :: ConnectorDefinition

text \<open>A column descriptor; \<open>'n\<close> is the type of elements.\<close>

datatype 'n Column =
  Column (Header: 'n) (accessor: string) (customWidth: "nat option")
    (collapse: "bool option") (Cell: "(CellProps \<Rightarrow> 'n) option")

text \<open>
  An entry of \<open>sortBy\<close>: the object \<open>{ id: ... }\<close>, whose only field \<open>id\<close> is named
  \<open>sort_id\<close> here.
\<close>

record SortingRule =
  sort_id :: string

text \<open>
  The values a JSX expression of the component can have: \<open>false\<close> (what \<open>c && e\<close> is
  when \<open>c\<close> is \<open>false\<close>), \<open>null\<close>, and the elements the component creates, each with its
  props in the order of the source. The props \<open>onUpdate\<close>, \<open>releaseStage\<close> and \<open>id\<close>
  of the elements are named \<open>onUpdate_of\<close>, \<open>releaseStage_of\<close> and \<open>id_of\<close>; the
  \<open>className\<close> of the \<open>div\<close> is its first argument, the \<open>bold\<close> flag of a \<open>Title\<close> its
  first argument, and the \<open>titles\<close> of \<open>HeadTitle\<close> are given by their message ids.
  \<open>CellText\<close> is the text react-table shows in a column without a \<open>Cell\<close> function.
\<close>

datatype ('u, 'v) node =
    JSFalse
  | JSNull
  | Fragment "('u, 'v) node list"
  | HeadTitle "string list"
  | Block "('u, 'v) node list"
  | Title bool "('u, 'v) node list"
  | FormattedMessage string
  | FormContentTitle "('u, 'v) node list"
  | Div string "('u, 'v) node list"
  | CreateConnector ConnectorType
  | UpgradeAllButton (isLoading: bool) (hasError: bool) (hasSuccess: bool) (onUpdate_of: 'u)
  | ConnectorCell (connectorName: "string option") (img: "string option")
      (hasUpdate: bool) (releaseStage_of: "string option")
  | ImageCell (imageName: "string option") (link: "string option")
  | VersionCell (version: string) (id_of: string) (onChange: 'v)
      (feedback: "string option") (currentVersion: string)
  | CellText "string option"
  | Table (columns: "('u, 'v) node Column list") (data: "ConnectorDefinition list")
      (sortBy: "SortingRule list")

section \<open>JavaScript operators\<close>

text \<open>\<open>Array.prototype.some\<close>: stops at the first element that satisfies \<open>p\<close>.\<close>

fun array_some :: "('a \<Rightarrow> bool) \<Rightarrow> 'a list \<Rightarrow> bool" where
  "array_some p [] = False"
| "array_some p (x # xs) = (if p x then True else array_some p xs)"

text \<open>
  \<open>a || b\<close> on an optional string \<open>a\<close> and a string \<open>b\<close>: \<open>undefined\<close> and the empty
  string are falsy, every other string is truthy.
\<close>

definition or_string :: "string option \<Rightarrow> string \<Rightarrow> string" where
  "or_string a b = (case a of None \<Rightarrow> b | Some s \<Rightarrow> if s = [] then b else s)"

text \<open>\<open>a || b\<close> on an optional boolean \<open>a\<close> and a boolean \<open>b\<close>.\<close>

definition or_bool :: "bool option \<Rightarrow> bool \<Rightarrow> bool" where
  "or_bool a b = (case a of None \<Rightarrow> b | Some x \<Rightarrow> if x then True else b)"

text \<open>\<open>c && e\<close> for a boolean \<open>c\<close> and an element \<open>e\<close>.\<close>

definition and_node :: "bool \<Rightarrow> ('u, 'v) node \<Rightarrow> ('u, 'v) node" where
  "and_node c e = (if c then e else JSFalse)"

section \<open>The component\<close>

definition allowUpdateConnectors :: "'w Hooks \<Rightarrow> bool" where
  "allowUpdateConnectors h = useFeature h AllowUpdateConnectors"

definition allowUploadCustomImage :: "'w Hooks \<Rightarrow> bool" where
  "allowUploadCustomImage h = useFeature h AllowUploadCustomImage"

definition workspace :: "'w Hooks \<Rightarrow> 'w" where
  "workspace h = useCurrentWorkspace h"

definition availableConnectorDefinitions ::
  "'w Hooks \<Rightarrow> ('u, 'v) ConnectorsViewProps \<Rightarrow> ConnectorDefinition list" where
  "availableConnectorDefinitions h p =
     useAvailableConnectorDefinitions h (connectorsDefinitions p) (workspace h)"

definition showVersionUpdateColumn :: "'w Hooks \<Rightarrow> ConnectorDefinition list \<Rightarrow> bool" where
  "showVersionUpdateColumn h definitions =
     (if allowUpdateConnectors h then True
      else if allowUploadCustomImage h
              \<and> array_some (\<lambda>definition. releaseStage definition = Some ''custom'') definitions
        then True
      else False)"

text \<open>
  \<open>useCallback\<close> returns the function it is given, and the dependency lists of the
  source name every value the two callbacks close over, so both are modelled as plain
  functions of the hooks and the props. The boolean argument of \<open>renderColumns\<close>, named
  \<open>showVersionUpdateColumn\<close> in the source, is \<open>showColumn\<close> here.
\<close>

definition renderColumns ::
  "'w Hooks \<Rightarrow> ('u, 'v) ConnectorsViewProps \<Rightarrow> bool \<Rightarrow> ('u, 'v) node Column list" where
  "renderColumns h p showColumn =
     [Column (FormattedMessage ''admin.connectors'') ''name'' (Some 25) None
        (Some (\<lambda>cp. ConnectorCell (cell_value cp) (icon (row_original cp))
           (allowUpdateConnectors h \<and> Connector_hasNewerVersion h (row_original cp))
           (releaseStage (row_original cp)))),
      Column (FormattedMessage ''admin.image'') ''dockerRepository'' (Some 36) None
        (Some (\<lambda>cp. ImageCell (cell_value cp) (documentationUrl (row_original cp)))),
      Column (FormattedMessage ''admin.currentVersion'') ''dockerImageTag'' (Some 10) None None]
     @ (if showColumn
        then [Column (FormContentTitle [FormattedMessage ''admin.changeTo''])
                ''latestDockerImageTag'' None (Some True)
                (Some (\<lambda>cp.
                   if allowUpdateConnectors h
                      \<or> (allowUploadCustomImage h
                          \<and> releaseStage (row_original cp) = Some ''custom'')
                   then VersionCell
                          (or_string (cell_value cp) (dockerImageTag (row_original cp)))
                          (Connector_id h (row_original cp))
                          (onUpdateVersion p)
                          (feedbackList p (Connector_id h (row_original cp)))
                          (dockerImageTag (row_original cp))
                   else JSNull))]
        else [])"

datatype Section = used | available

definition renderHeaderControls ::
  "'w Hooks \<Rightarrow> ('u, 'v) ConnectorsViewProps \<Rightarrow> Section \<Rightarrow> ('u, 'v) node" where
  "renderHeaderControls h p section =
     and_node
       ((section = used \<and> length (usedConnectorsDefinitions p) > 0)
        \<or> (section = available \<and> length (usedConnectorsDefinitions p) = 0))
       (Div ''buttonsContainer''
          [and_node (allowUploadCustomImage h) (CreateConnector (type_prop p)),
           and_node
             (or_bool (hasNewConnectorVersion p) (isUpdateSuccess p) \<and> allowUpdateConnectors h)
             (UpgradeAllButton (loading p) (error p \<noteq> None \<and> \<not> loading p)
                (isUpdateSuccess p) (onUpdate p))])"

definition defaultSorting :: "SortingRule list" where
  "defaultSorting = [\<lparr>sort_id = ''name''\<rparr>]"

definition ConnectorsView ::
  "'w Hooks \<Rightarrow> ('u, 'v) ConnectorsViewProps \<Rightarrow> ('u, 'v) node" where
  "ConnectorsView h p =
     Fragment
       [HeadTitle
          [''sidebar.settings'',
           if type_prop p = sources then ''admin.sources'' else ''admin.destinations''],
        and_node (length (usedConnectorsDefinitions p) > 0)
          (Block
             [Title True
                [FormattedMessage
                   (if type_prop p = sources then ''admin.manageSource''
                    else ''admin.manageDestination''),
                 renderHeaderControls h p used],
              Table
                (renderColumns h p (showVersionUpdateColumn h (usedConnectorsDefinitions p)))
                (usedConnectorsDefinitions p)
                defaultSorting]),
        Block
          [Title True
             [FormattedMessage
                (if type_prop p = sources then ''admin.availableSource''
                 else ''admin.availableDestinations''),
              renderHeaderControls h p available],
           Table
             (renderColumns h p (showVersionUpdateColumn h (availableConnectorDefinitions h p)))
             (availableConnectorDefinitions h p)
             defaultSorting]]"

section \<open>What is rendered\<close>

text \<open>
  Modelled from the spec: the generic table renderer (\<open>components/ui/Table\<close>, over
  react-table) is not part of the source at hand. The specification describes a column
  descriptor as a header label, a data accessor key and a cell-rendering function:
  \<open>cell.value\<close> is the attribute of the row that the accessor key names, and a column
  without a cell-rendering function shows that value as text.
\<close>

definition cellValue :: "string \<Rightarrow> ConnectorDefinition \<Rightarrow> string option" where
  "cellValue key d =
     (if key = ''name'' then Some (name d)
      else if key = ''icon'' then icon d
      else if key = ''dockerRepository'' then Some (dockerRepository d)
      else if key = ''dockerImageTag'' then Some (dockerImageTag d)
      else if key = ''latestDockerImageTag'' then latestDockerImageTag d
      else if key = ''releaseStage'' then releaseStage d
      else if key = ''documentationUrl'' then documentationUrl d
      else None)"

definition tableCell :: "('u, 'v) node Column \<Rightarrow> ConnectorDefinition \<Rightarrow> ('u, 'v) node" where
  "tableCell c d =
     (let cp = \<lparr>cell_value = cellValue (accessor c) d, row_original = d\<rparr>
      in case Cell c of None \<Rightarrow> CellText (cell_value cp) | Some f \<Rightarrow> f cp)"

text \<open>
  The elements of a tree that React renders, in document order: \<open>false\<close> and \<open>null\<close>
  render nothing, a fragment renders its children only, and every other element is
  listed before its children. A table is a leaf here.
\<close>

fun rendered :: "('u, 'v) node \<Rightarrow> ('u, 'v) node list" where
  "rendered JSFalse = []"
| "rendered JSNull = []"
| "rendered (Fragment cs) = concat (map rendered cs)"
| "rendered (Block cs) = Block cs # concat (map rendered cs)"
| "rendered (Title b cs) = Title b cs # concat (map rendered cs)"
| "rendered (FormContentTitle cs) = FormContentTitle cs # concat (map rendered cs)"
| "rendered (Div cl cs) = Div cl cs # concat (map rendered cs)"
| "rendered e = [e]"

fun isCreateConnector :: "('u, 'v) node \<Rightarrow> bool" where
  "isCreateConnector (CreateConnector t) = True"
| "isCreateConnector e = False"

fun isUpgradeAllButton :: "('u, 'v) node \<Rightarrow> bool" where
  "isUpgradeAllButton (UpgradeAllButton l e s u) = True"
| "isUpgradeAllButton e = False"

fun isVersionCell :: "('u, 'v) node \<Rightarrow> bool" where
  "isVersionCell (VersionCell v i c f cv) = True"
| "isVersionCell e = False"

fun isTable :: "('u, 'v) node \<Rightarrow> bool" where
  "isTable (Table cs ds sb) = True"
| "isTable e = False"

fun isBlock :: "('u, 'v) node \<Rightarrow> bool" where
  "isBlock (Block cs) = True"
| "isBlock e = False"

text \<open>The message that heads a block: the first child of its title.\<close>

fun blockHeading :: "('u, 'v) node \<Rightarrow> string option" where
  "blockHeading (Block (Title b (FormattedMessage m # ts) # cs)) = Some m"
| "blockHeading e = None"

text \<open>The header controls of a section are rendered when the expression is an element.\<close>

definition controlsRender :: "('u, 'v) node \<Rightarrow> bool" where
  "controlsRender e = (rendered e \<noteq> [])"

text \<open>
  The container of the header controls is the \<open>div\<close> of class \<open>buttonsContainer\<close>; the
  controls it shows are what its children render.
\<close>

fun isButtonsContainer :: "('u, 'v) node \<Rightarrow> bool" where
  "isButtonsContainer (Div cl cs) = (cl = ''buttonsContainer'')"
| "isButtonsContainer e = False"

fun containerControls :: "('u, 'v) node \<Rightarrow> ('u, 'v) node list" where
  "containerControls (Div cl cs) = concat (map rendered cs)"
| "containerControls e = []"

definition isControl :: "('u, 'v) node \<Rightarrow> bool" where
  "isControl e = (isCreateConnector e \<or> isUpgradeAllButton e)"

text \<open>
  The section a block of the page belongs to, read from the message that heads it: the
  used block is headed \<open>admin.manageSource\<close> or \<open>admin.manageDestination\<close>, the
  available block \<open>admin.availableSource\<close> or \<open>admin.availableDestinations\<close>.
\<close>

definition sectionOf :: "('u, 'v) node \<Rightarrow> Section option" where
  "sectionOf b =
     (if blockHeading b = Some ''admin.manageSource''
         \<or> blockHeading b = Some ''admin.manageDestination'' then Some used
      else if blockHeading b = Some ''admin.availableSource''
         \<or> blockHeading b = Some ''admin.availableDestinations'' then Some available
      else None)"

text \<open>
  The rendered blocks of a section of a page, the containers of header controls rendered
  inside them, and the controls rendered inside them.
\<close>

definition sectionBlocks :: "Section \<Rightarrow> ('u, 'v) node \<Rightarrow> ('u, 'v) node list" where
  "sectionBlocks s page = filter (\<lambda>b. sectionOf b = Some s) (filter isBlock (rendered page))"

definition sectionContainers :: "Section \<Rightarrow> ('u, 'v) node \<Rightarrow> ('u, 'v) node list" where
  "sectionContainers s page =
     concat (map (\<lambda>b. filter isButtonsContainer (rendered b)) (sectionBlocks s page))"

definition sectionControls :: "Section \<Rightarrow> ('u, 'v) node \<Rightarrow> ('u, 'v) node list" where
  "sectionControls s page =
     concat (map (\<lambda>b. filter isControl (rendered b)) (sectionBlocks s page))"

section \<open>Sample inputs\<close>

text \<open>
  Hooks that answer \<open>au\<close> for \<open>AllowUpdateConnectors\<close> and \<open>ac\<close> for
  \<open>AllowUploadCustomImage\<close>, in a workspace where every definition is available.
\<close>

definition sampleHooks :: "bool \<Rightarrow> bool \<Rightarrow> unit Hooks" where
  "sampleHooks au ac =
     \<lparr>useFeature =
        (\<lambda>item. case item of AllowUpdateConnectors \<Rightarrow> au | AllowUploadCustomImage \<Rightarrow> ac),
      useCurrentWorkspace = (),
      useAvailableConnectorDefinitions = (\<lambda>ds w. ds),
      Connector_id = name,
      Connector_hasNewerVersion =
        (\<lambda>d. latestDockerImageTag d \<noteq> Some (dockerImageTag d))\<rparr>"

definition customDefinition :: ConnectorDefinition where
  "customDefinition =
     \<lparr>name = ''my-source'', icon = None, dockerRepository = ''acme/my-source'',
      dockerImageTag = ''0.1.0'', latestDockerImageTag = None,
      releaseStage = Some ''custom'', documentationUrl = None\<rparr>"

definition catalogDefinition :: ConnectorDefinition where
  "catalogDefinition =
     \<lparr>name = ''Postgres'', icon = None, dockerRepository = ''airbyte/source-postgres'',
      dockerImageTag = ''1.0.0'', latestDockerImageTag = Some ''1.2.0'',
      releaseStage = Some ''generally_available'',
      documentationUrl = Some ''https://docs.airbyte.com/integrations/sources/postgres''\<rparr>"

text \<open>
  Props of a page of sources on which a bulk update has failed and a new one is loading.
\<close>

definition sampleProps :: "(unit, unit) ConnectorsViewProps" where
  "sampleProps =
     \<lparr>type_prop = sources, isUpdateSuccess = False, hasNewConnectorVersion = Some True,
      usedConnectorsDefinitions = [catalogDefinition],
      connectorsDefinitions = [catalogDefinition, customDefinition],
      loading = True, error = Some (Error ''update failed''),
      onUpdate = (), onUpdateVersion = (), feedbackList = Map.empty\<rparr>"

section \<open>Auxiliary facts\<close>

lemma array_some_iff: "array_some p xs = (\<exists>x \<in> set xs. p x)"
  by (induction xs) auto

lemma or_bool_iff: "or_bool a b = (a = Some True \<or> b)"
  by (auto simp add: or_bool_def split: option.splits)

lemma sampleHooks_flags:
  "allowUpdateConnectors (sampleHooks au ac) = au"
  "allowUploadCustomImage (sampleHooks au ac) = ac"
  by (simp_all add: allowUpdateConnectors_def allowUploadCustomImage_def sampleHooks_def)

text \<open>What a call of \<open>renderHeaderControls\<close> renders.\<close>

lemma rendered_renderHeaderControls:
  "rendered (renderHeaderControls h p s) =
     (if (s = used \<and> usedConnectorsDefinitions p \<noteq> [])
         \<or> (s = available \<and> usedConnectorsDefinitions p = [])
      then Div ''buttonsContainer''
             [and_node (allowUploadCustomImage h) (CreateConnector (type_prop p)),
              and_node
                (or_bool (hasNewConnectorVersion p) (isUpdateSuccess p)
                 \<and> allowUpdateConnectors h)
                (UpgradeAllButton (loading p) (error p \<noteq> None \<and> \<not> loading p)
                   (isUpdateSuccess p) (onUpdate p))]
           # (if allowUploadCustomImage h then [CreateConnector (type_prop p)] else [])
           @ (if or_bool (hasNewConnectorVersion p) (isUpdateSuccess p)
                 \<and> allowUpdateConnectors h
              then [UpgradeAllButton (loading p) (error p \<noteq> None \<and> \<not> loading p)
                      (isUpdateSuccess p) (onUpdate p)]
              else [])
      else [])"
  by (simp add: renderHeaderControls_def and_node_def)

text \<open>
  The page holds the header controls once, in the used block or in the available one, so
  each control occurs at most once on the page.
\<close>

lemma createConnectors_page:
  "filter isCreateConnector (rendered (ConnectorsView h p)) =
     (if allowUploadCustomImage h then [CreateConnector (type_prop p)] else [])"
  by (simp add: ConnectorsView_def renderHeaderControls_def and_node_def)

lemma upgradeButtons_page:
  "filter isUpgradeAllButton (rendered (ConnectorsView h p)) =
     (if or_bool (hasNewConnectorVersion p) (isUpdateSuccess p) \<and> allowUpdateConnectors h
      then [UpgradeAllButton (loading p) (error p \<noteq> None \<and> \<not> loading p)
              (isUpdateSuccess p) (onUpdate p)]
      else [])"
  by (simp add: ConnectorsView_def renderHeaderControls_def and_node_def)

lemma controls_page:
  "filter isControl (rendered (ConnectorsView h p)) =
     (if allowUploadCustomImage h then [CreateConnector (type_prop p)] else [])
     @ (if or_bool (hasNewConnectorVersion p) (isUpdateSuccess p) \<and> allowUpdateConnectors h
        then [UpgradeAllButton (loading p) (error p \<noteq> None \<and> \<not> loading p)
                (isUpdateSuccess p) (onUpdate p)]
        else [])"
  by (simp add: ConnectorsView_def renderHeaderControls_def and_node_def isControl_def)

text \<open>The blocks of each section of the page.\<close>

lemma sectionBlocks_page:
  "sectionBlocks s (ConnectorsView h p) =
     (if s = used
      then (if usedConnectorsDefinitions p \<noteq> []
            then [Block
                    [Title True
                       [FormattedMessage
                          (if type_prop p = sources then ''admin.manageSource''
                           else ''admin.manageDestination''),
                        renderHeaderControls h p used],
                     Table
                       (renderColumns h p
                          (showVersionUpdateColumn h (usedConnectorsDefinitions p)))
                       (usedConnectorsDefinitions p)
                       defaultSorting]]
            else [])
      else [Block
              [Title True
                 [FormattedMessage
                    (if type_prop p = sources then ''admin.availableSource''
                     else ''admin.availableDestinations''),
                  renderHeaderControls h p available],
               Table
                 (renderColumns h p
                    (showVersionUpdateColumn h (availableConnectorDefinitions h p)))
                 (availableConnectorDefinitions h p)
                 defaultSorting]])"
  by (cases s)
     (simp_all add: sectionBlocks_def ConnectorsView_def sectionOf_def and_node_def
        renderHeaderControls_def)

text \<open>
  Inside the blocks of a section, the containers and the controls are those of the call
  of \<open>renderHeaderControls\<close> for that section.
\<close>

lemma sectionContainers_page:
  "sectionContainers s (ConnectorsView h p) =
     filter isButtonsContainer (rendered (renderHeaderControls h p s))"
  by (cases s)
     (simp_all add: sectionContainers_def sectionBlocks_page rendered_renderHeaderControls)

lemma sectionControls_page:
  "sectionControls s (ConnectorsView h p) =
     filter isControl (rendered (renderHeaderControls h p s))"
  by (cases s)
     (simp_all add: sectionControls_def sectionBlocks_page isControl_def
        rendered_renderHeaderControls)

section \<open>The upgrade-column visibility policy\<close>

text \<open>
  C1. For every list of connector definitions, \<open>showVersionUpdateColumn\<close> is true if
  \<open>allowUpdateConnectors\<close> is enabled; otherwise it is true if \<open>allowUploadCustomImage\<close>
  is enabled and at least one definition of the list has \<open>releaseStage = "custom"\<close>;
  otherwise it is false.
\<close>

theorem showVersionUpdateColumn_policy:
  "showVersionUpdateColumn h ds =
     (if allowUpdateConnectors h then True
      else if allowUploadCustomImage h \<and> (\<exists>d \<in> set ds. releaseStage d = Some ''custom'')
        then True
      else False)"
  by (simp add: showVersionUpdateColumn_def array_some_iff)

text \<open>
  The example of the specification: with updates not allowed and custom images allowed,
  a list with a custom definition shows the column and a list without one does not.
\<close>

theorem showVersionUpdateColumn_policy_witness:
  "showVersionUpdateColumn (sampleHooks False True) [catalogDefinition, customDefinition]
   \<and> \<not> showVersionUpdateColumn (sampleHooks False True) [catalogDefinition]"
  using showVersionUpdateColumn_policy [of "sampleHooks False True"
          "[catalogDefinition, customDefinition]"]
        showVersionUpdateColumn_policy [of "sampleHooks False True" "[catalogDefinition]"]
  by (simp add: sampleHooks_flags customDefinition_def catalogDefinition_def)

section \<open>The column builder\<close>

text \<open>
  C2. For both values of its argument, \<open>renderColumns\<close> yields the name, image (docker
  repository) and current-version columns, in that order and the same in both cases, and
  a fourth column, headed "change to" and with the accessor \<open>latestDockerImageTag\<close>,
  exactly when the argument is true.
\<close>

theorem renderColumns_columns:
  "map accessor (renderColumns h p b) =
       [''name'', ''dockerRepository'', ''dockerImageTag'']
       @ (if b then [''latestDockerImageTag''] else [])
   \<and> map Header (renderColumns h p b) =
       [FormattedMessage ''admin.connectors'', FormattedMessage ''admin.image'',
        FormattedMessage ''admin.currentVersion'']
       @ (if b then [FormContentTitle [FormattedMessage ''admin.changeTo'']] else [])
   \<and> take 3 (renderColumns h p b) = renderColumns h p False
   \<and> (length (renderColumns h p b) = 4) = b
   \<and> (length (renderColumns h p b) = 3) = (\<not> b)
   \<and> (\<exists>c \<in> set (renderColumns h p b). accessor c = ''latestDockerImageTag'') = b"
  by (simp add: renderColumns_def)

text \<open>
  C3. In the change-version column, the \<open>Cell\<close> function yields a \<open>VersionCell\<close> if
  \<open>allowUpdateConnectors\<close> is enabled, or if \<open>allowUploadCustomImage\<close> is enabled and
  the row's definition has \<open>releaseStage = "custom"\<close>; in every other case it yields
  \<open>null\<close>. This holds for whatever cell props the function is called with, and so for
  every row of the table.
\<close>

theorem changeVersion_cell_visibility:
  "(case Cell (renderColumns h p True ! 3) of
      None \<Rightarrow> False
    | Some f \<Rightarrow>
        isVersionCell (f cp) =
          (allowUpdateConnectors h
           \<or> (allowUploadCustomImage h \<and> releaseStage (row_original cp) = Some ''custom''))
        \<and> (f cp = JSNull) =
          (\<not> (allowUpdateConnectors h
               \<or> (allowUploadCustomImage h
                   \<and> releaseStage (row_original cp) = Some ''custom''))))
   \<and> isVersionCell (tableCell (renderColumns h p True ! 3) d) =
        (allowUpdateConnectors h
         \<or> (allowUploadCustomImage h \<and> releaseStage d = Some ''custom''))
   \<and> (tableCell (renderColumns h p True ! 3) d = JSNull) =
        (\<not> (allowUpdateConnectors h
             \<or> (allowUploadCustomImage h \<and> releaseStage d = Some ''custom'')))"
  by (simp add: renderColumns_def tableCell_def Let_def)

text \<open>
  C10. In every change-version cell that shows a \<open>VersionCell\<close>, the version shown is
  the row's \<open>dockerImageTag\<close> when the row's \<open>latestDockerImageTag\<close> is absent or
  empty, and the \<open>latestDockerImageTag\<close> otherwise.
\<close>

theorem changeVersion_cell_version:
  assumes "isVersionCell (tableCell (renderColumns h p True ! 3) d)"
  shows "accessor (renderColumns h p True ! 3) = ''latestDockerImageTag''
       \<and> (latestDockerImageTag d = None \<or> latestDockerImageTag d = Some []
            \<longrightarrow> version (tableCell (renderColumns h p True ! 3) d) = dockerImageTag d)
       \<and> (\<forall>s. latestDockerImageTag d = Some s \<and> s \<noteq> []
            \<longrightarrow> version (tableCell (renderColumns h p True ! 3) d) = s)"
  using assms
  by (auto simp add: renderColumns_def tableCell_def cellValue_def or_string_def Let_def
      split: if_splits)

text \<open>
  A custom definition without a latest tag shows its current tag \<open>0.1.0\<close>; a catalog
  definition at \<open>1.0.0\<close> whose latest tag is \<open>1.2.0\<close> shows \<open>1.2.0\<close>.
\<close>

theorem changeVersion_cell_version_witness:
  "isVersionCell (tableCell (renderColumns (sampleHooks True True) sampleProps True ! 3)
      customDefinition)
   \<and> version (tableCell (renderColumns (sampleHooks True True) sampleProps True ! 3)
      customDefinition) = ''0.1.0''
   \<and> isVersionCell (tableCell (renderColumns (sampleHooks True True) sampleProps True ! 3)
      catalogDefinition)
   \<and> version (tableCell (renderColumns (sampleHooks True True) sampleProps True ! 3)
      catalogDefinition) = ''1.2.0''"
proof -
  let ?c = "renderColumns (sampleHooks True True) sampleProps True ! 3"
  have shown: "isVersionCell (tableCell ?c d)" for d
    by (simp add: renderColumns_def tableCell_def Let_def sampleHooks_flags)
  have "version (tableCell ?c customDefinition) = dockerImageTag customDefinition"
    using changeVersion_cell_version [OF shown, of customDefinition]
    by (simp add: customDefinition_def)
  moreover have "version (tableCell ?c catalogDefinition) = ''1.2.0''"
    using changeVersion_cell_version [OF shown, of catalogDefinition]
    by (simp add: catalogDefinition_def)
  ultimately show ?thesis
    using shown by (simp add: customDefinition_def)
qed

section \<open>The section header controls\<close>

text \<open>
  C4. On the page, the container of the header controls is rendered in the block of the
  section "used" if and only if \<open>usedConnectorsDefinitions\<close> is non-empty, and in the
  block of the section "available" if and only if it is empty: the page has exactly one
  container, so the controls attach to exactly one section. The container shows the
  controls that the flags enable, and every control of the page is shown in that section.
  The same holds of the two calls of \<open>renderHeaderControls\<close>: the call for the other
  section is \<open>false\<close>.
\<close>

theorem headerControls_section:
  "(sectionContainers used (ConnectorsView h p) \<noteq> []) = (usedConnectorsDefinitions p \<noteq> [])
   \<and> (sectionContainers available (ConnectorsView h p) \<noteq> [])
       = (usedConnectorsDefinitions p = [])
   \<and> length (sectionContainers used (ConnectorsView h p))
       + length (sectionContainers available (ConnectorsView h p)) = 1
   \<and> map containerControls (sectionContainers used (ConnectorsView h p)) =
       (if usedConnectorsDefinitions p \<noteq> []
        then [(if allowUploadCustomImage h then [CreateConnector (type_prop p)] else [])
              @ (if (hasNewConnectorVersion p = Some True \<or> isUpdateSuccess p)
                    \<and> allowUpdateConnectors h
                 then [UpgradeAllButton (loading p) (error p \<noteq> None \<and> \<not> loading p)
                         (isUpdateSuccess p) (onUpdate p)]
                 else [])]
        else [])
   \<and> map containerControls (sectionContainers available (ConnectorsView h p)) =
       (if usedConnectorsDefinitions p = []
        then [(if allowUploadCustomImage h then [CreateConnector (type_prop p)] else [])
              @ (if (hasNewConnectorVersion p = Some True \<or> isUpdateSuccess p)
                    \<and> allowUpdateConnectors h
                 then [UpgradeAllButton (loading p) (error p \<noteq> None \<and> \<not> loading p)
                         (isUpdateSuccess p) (onUpdate p)]
                 else [])]
        else [])
   \<and> sectionControls used (ConnectorsView h p) =
       (if usedConnectorsDefinitions p \<noteq> []
        then filter isControl (rendered (ConnectorsView h p)) else [])
   \<and> sectionControls available (ConnectorsView h p) =
       (if usedConnectorsDefinitions p = []
        then filter isControl (rendered (ConnectorsView h p)) else [])
   \<and> controlsRender (renderHeaderControls h p used) = (usedConnectorsDefinitions p \<noteq> [])
   \<and> controlsRender (renderHeaderControls h p available) = (usedConnectorsDefinitions p = [])
   \<and> controlsRender (renderHeaderControls h p used)
       \<noteq> controlsRender (renderHeaderControls h p available)
   \<and> (usedConnectorsDefinitions p = []) = (renderHeaderControls h p used = JSFalse)
   \<and> (usedConnectorsDefinitions p \<noteq> []) = (renderHeaderControls h p available = JSFalse)"
  by (simp add: sectionContainers_page sectionControls_page controls_page
        rendered_renderHeaderControls controlsRender_def or_bool_iff isControl_def and_node_def)
     (simp add: renderHeaderControls_def and_node_def)

text \<open>
  On the sample page, which has a used definition and both flags enabled, the used block
  holds the container with both controls and the available block holds none.
\<close>

theorem headerControls_section_sample:
  "map containerControls (sectionContainers used (ConnectorsView (sampleHooks True True)
      sampleProps)) = [[CreateConnector sources, UpgradeAllButton True False False ()]]
   \<and> sectionContainers available (ConnectorsView (sampleHooks True True) sampleProps) = []"
  using headerControls_section [of "sampleHooks True True" sampleProps]
  by (simp add: sampleHooks_flags sampleProps_def)

text \<open>
  C5. The "create connector" control is shown only when \<open>allowUploadCustomImage\<close> is
  enabled: when it is disabled, no call of \<open>renderHeaderControls\<close> and no page renders a
  \<open>CreateConnector\<close>, whatever the lists and the other flags are.
\<close>

theorem createConnector_only_if_allowed:
  "(\<not> allowUploadCustomImage h \<longrightarrow>
      (\<forall>s. filter isCreateConnector (rendered (renderHeaderControls h p s)) = [])
      \<and> filter isCreateConnector (rendered (ConnectorsView h p)) = [])
   \<and> (filter isCreateConnector (rendered (ConnectorsView h p)) \<noteq> []
        \<longrightarrow> allowUploadCustomImage h)"
  by (simp add: createConnectors_page rendered_renderHeaderControls)

theorem createConnector_only_if_allowed_witness:
  "filter isCreateConnector (rendered (renderHeaderControls (sampleHooks True False)
      sampleProps used)) = []
   \<and> filter isCreateConnector (rendered (ConnectorsView (sampleHooks True False)
      sampleProps)) = []"
  using createConnector_only_if_allowed [of "sampleHooks True False" sampleProps]
  by (simp add: sampleHooks_flags)

text \<open>
  C6. The "bulk upgrade" control is shown on the page if and only if
  \<open>hasNewConnectorVersion\<close> is true or \<open>isUpdateSuccess\<close> is true, and
  \<open>allowUpdateConnectors\<close> is enabled; a call of \<open>renderHeaderControls\<close> shows it under
  the same condition when the controls of its section render.
\<close>

theorem upgradeAllButton_shown_iff:
  "(filter isUpgradeAllButton (rendered (ConnectorsView h p)) \<noteq> []) =
     ((hasNewConnectorVersion p = Some True \<or> isUpdateSuccess p) \<and> allowUpdateConnectors h)
   \<and> (filter isUpgradeAllButton (rendered (renderHeaderControls h p s)) \<noteq> []) =
     (controlsRender (renderHeaderControls h p s)
      \<and> (hasNewConnectorVersion p = Some True \<or> isUpdateSuccess p)
      \<and> allowUpdateConnectors h)"
  by (simp add: upgradeButtons_page rendered_renderHeaderControls controlsRender_def or_bool_iff)

text \<open>
  C9. The \<open>hasError\<close> prop of the "bulk upgrade" control is true if and only if an error
  is present and \<open>loading\<close> is false, so an error is not shown while a load is in
  progress.
\<close>

theorem upgradeAllButton_hasError:
  "\<forall>b \<in> set (filter isUpgradeAllButton (rendered (ConnectorsView h p))).
     hasError b = (error p \<noteq> None \<and> \<not> loading p)
     \<and> isLoading b = loading p \<and> hasSuccess b = isUpdateSuccess p"
  by (simp only: upgradeButtons_page) simp

text \<open>On the sample page an error is present and a load is in progress: no error is shown.\<close>

theorem upgradeAllButton_hasError_witness:
  "UpgradeAllButton True False False ()
     \<in> set (filter isUpgradeAllButton (rendered (ConnectorsView (sampleHooks True False)
          sampleProps)))
   \<and> error sampleProps \<noteq> None
   \<and> hasError (UpgradeAllButton True False False () :: (unit, unit) node)
       = (error sampleProps \<noteq> None \<and> \<not> loading sampleProps)"
proof -
  let ?b = "UpgradeAllButton True False False () :: (unit, unit) node"
  have shown: "?b \<in> set (filter isUpgradeAllButton
      (rendered (ConnectorsView (sampleHooks True False) sampleProps)))"
    by (simp add: upgradeButtons_page or_bool_iff sampleHooks_flags sampleProps_def)
  have "hasError ?b = (error sampleProps \<noteq> None \<and> \<not> loading sampleProps)"
    using upgradeAllButton_hasError [of "sampleHooks True False" sampleProps] shown
    by blast
  with shown show ?thesis
    by (simp add: sampleProps_def)
qed

section \<open>The page\<close>

text \<open>
  C7. The page renders the "manage used connectors" block if and only if
  \<open>usedConnectorsDefinitions\<close> is non-empty, and always renders the "manage available
  connectors" block, after the used block when both are there; the table of the used
  block shows the used definitions and the table of the available block the available
  ones.
\<close>

theorem ConnectorsView_blocks:
  "map blockHeading (filter isBlock (rendered (ConnectorsView h p))) =
     (if usedConnectorsDefinitions p \<noteq> []
      then [Some (if type_prop p = sources then ''admin.manageSource''
                  else ''admin.manageDestination'')]
      else [])
     @ [Some (if type_prop p = sources then ''admin.availableSource''
              else ''admin.availableDestinations'')]
   \<and> map data (filter isTable (rendered (ConnectorsView h p))) =
     (if usedConnectorsDefinitions p \<noteq> [] then [usedConnectorsDefinitions p] else [])
     @ [availableConnectorDefinitions h p]"
  by (simp add: ConnectorsView_def renderHeaderControls_def and_node_def)

text \<open>
  C8. Every table of the page, the used one and the available one, is given the same
  default sorting descriptor \<open>[{ id: "name" }]\<close>: the rows are sorted by \<open>name\<close>, with
  no descending flag.
\<close>

theorem ConnectorsView_sortBy:
  "map sortBy (filter isTable (rendered (ConnectorsView h p))) =
     (if usedConnectorsDefinitions p \<noteq> [] then [defaultSorting] else []) @ [defaultSorting]
   \<and> defaultSorting = [\<lparr>sort_id = ''name''\<rparr>]"
  by (simp add: ConnectorsView_def renderHeaderControls_def and_node_def defaultSorting_def)

end
